theory Spec2Isabelle
  imports Main
begin

section \<open>The agent-file validator\<close>

text \<open>
  A shallow embedding of the validator for \<^verbatim>\<open>.agent.md\<close> files. A JavaScript string is
  a sequence of UTF-16 code units; the model carries the code units below 256 as
  \<^typ>\<open>char\<close>, so \<^term>\<open>length\<close> is the string's \<^verbatim>\<open>.length\<close>. The collaborators of the
  validator (the rule table \<^verbatim>\<open>rules.json\<close>, the file system, the YAML decoder and the
  path library) are parameters.
\<close>

subsection \<open>types.ts\<close>

datatype RuleSeverity = SevError | SevWarning

datatype RuleId =
    FrontmatterRequired
  | FrontmatterValid
  | FileExtension
  | DescriptionFormat
  | DescriptionQuality
  | NameFormat
  | ArgumentHintFormat
  | ToolsFormat
  | AgentsFormat
  | ModelFormat
  | UserInvokableFormat
  | DisableModelInvocationFormat
  | InferDeprecated
  | TargetValid
  | McpServersFormat
  | HandoffsFormat
  | HandoffLabelRequired
  | HandoffAgentRequired
  | HandoffSendFormat
  | HandoffModelFormat
  | UnknownField
  | BodyEmpty
  | BodyTooLong
  | ReferenceNotFound

text \<open>A \<^verbatim>\<open>RuleId\<close> is a string literal type; \<open>ruleIdText\<close> is the string it stands for.\<close>

fun ruleIdText :: "RuleId \<Rightarrow> string" where
  "ruleIdText FrontmatterRequired = ''frontmatter-required''"
| "ruleIdText FrontmatterValid = ''frontmatter-valid''"
| "ruleIdText FileExtension = ''file-extension''"
| "ruleIdText DescriptionFormat = ''description-format''"
| "ruleIdText DescriptionQuality = ''description-quality''"
| "ruleIdText NameFormat = ''name-format''"
| "ruleIdText ArgumentHintFormat = ''argument-hint-format''"
| "ruleIdText ToolsFormat = ''tools-format''"
| "ruleIdText AgentsFormat = ''agents-format''"
| "ruleIdText ModelFormat = ''model-format''"
| "ruleIdText UserInvokableFormat = ''user-invokable-format''"
| "ruleIdText DisableModelInvocationFormat = ''disable-model-invocation-format''"
| "ruleIdText InferDeprecated = ''infer-deprecated''"
| "ruleIdText TargetValid = ''target-valid''"
| "ruleIdText McpServersFormat = ''mcp-servers-format''"
| "ruleIdText HandoffsFormat = ''handoffs-format''"
| "ruleIdText HandoffLabelRequired = ''handoff-label-required''"
| "ruleIdText HandoffAgentRequired = ''handoff-agent-required''"
| "ruleIdText HandoffSendFormat = ''handoff-send-format''"
| "ruleIdText HandoffModelFormat = ''handoff-model-format''"
| "ruleIdText UnknownField = ''unknown-field''"
| "ruleIdText BodyEmpty = ''body-empty''"
| "ruleIdText BodyTooLong = ''body-too-long''"
| "ruleIdText ReferenceNotFound = ''reference-not-found''"

text \<open>An entry of the rule table: the two fields \<open>createIssue\<close> reads.\<close>

record RuleDefinition =
  ruleSeverity :: RuleSeverity
  ruleMessage :: string

record ValidationIssue =
  ruleId :: RuleId
  message :: string
  severity :: RuleSeverity
  issueFile :: "string option"
  issueLine :: "nat option"

record FileValidationResult =
  resultFile :: string
  valid :: bool
  errors :: "ValidationIssue list"
  warnings :: "ValidationIssue list"

datatype ParseError = ParseError (errorMessage: string) (errorRuleId: "RuleId option")

record ValidateOptions =
  ignoreRules :: "string list"
  validateReferences :: bool
  filePath :: string

definition KNOWN_FIELDS :: "string list" where
  "KNOWN_FIELDS =
     [''description'', ''name'', ''argument-hint'', ''tools'', ''agents'', ''model'',
      ''user-invokable'', ''disable-model-invocation'', ''infer'', ''target'',
      ''mcp-servers'', ''handoffs'']"

definition VALID_TARGETS :: "string list" where
  "VALID_TARGETS = [''vscode'', ''github-copilot'']"

subsection \<open>The decoded document\<close>

text \<open>
  The tree the YAML decoder returns. A number is carried as the text \<^verbatim>\<open>String()\<close> gives
  for it, which is all a validator reads of a number besides its type. An object is the
  list of its own enumerable properties in \<^verbatim>\<open>Object.keys\<close> order. \<open>JOther\<close> is any
  other object the decoder builds (a \<^verbatim>\<open>Date\<close> for a timestamp, a \<^verbatim>\<open>Uint8Array\<close> for binary
  data): its own enumerable keys and the text \<^verbatim>\<open>String()\<close> gives for it. \<^verbatim>\<open>undefined\<close> is no
  node of a tree: it is what reading a missing property gives and what decoding an empty
  document gives, so a value that may be undefined is a \<^typ>\<open>'a option\<close>.
\<close>

datatype jsvalue =
    JNull
  | JBool bool
  | JNum string
  | JStr string
  | JArr "jsvalue list"
  | JObj "(string \<times> jsvalue) list"
  | JOther "string list" string

fun isString :: "jsvalue option \<Rightarrow> bool" where
  "isString (Some (JStr s)) = True"
| "isString v = False"

fun isBoolean :: "jsvalue option \<Rightarrow> bool" where
  "isBoolean (Some (JBool b)) = True"
| "isBoolean v = False"

fun isArray :: "jsvalue option \<Rightarrow> bool" where
  "isArray (Some (JArr xs)) = True"
| "isArray v = False"

text \<open>\<^verbatim>\<open>typeof v === "object"\<close>: null, arrays and objects.\<close>

fun typeofObject :: "jsvalue option \<Rightarrow> bool" where
  "typeofObject (Some JNull) = True"
| "typeofObject (Some (JArr xs)) = True"
| "typeofObject (Some (JObj fs)) = True"
| "typeofObject (Some (JOther ks r)) = True"
| "typeofObject v = False"

text \<open>
  Reading a property by name. The names read are the twelve known fields and the four
  handoff fields; none of them is an index, \<^verbatim>\<open>length\<close> or a prototype member, so on an
  array, a \<^verbatim>\<open>Date\<close> and a \<^verbatim>\<open>Uint8Array\<close> the read gives undefined.
\<close>

fun getProp :: "jsvalue \<Rightarrow> string \<Rightarrow> jsvalue option" where
  "getProp (JObj fs) k = map_of fs k"
| "getProp v k = None"

subsection \<open>Strings\<close>

text \<open>\<^verbatim>\<open>String(n)\<close> of a non-negative integer.\<close>

fun showNat :: "nat \<Rightarrow> string" where
  "showNat n =
     (if n < 10 then [''0123456789'' ! n]
      else showNat (n div 10) @ [''0123456789'' ! (n mod 10)])"

declare showNat.simps [simp del]

text \<open>White space and line terminators among the code units below 256.\<close>

definition isWhiteSpace :: "char \<Rightarrow> bool" where
  "isWhiteSpace c =
     (c \<in> set [CHR 0x09, CHR 0x0A, CHR 0x0B, CHR 0x0C, CHR 0x0D, CHR 0x20, CHR 0xA0])"

definition trim :: "string \<Rightarrow> string" where
  "trim s = rev (dropWhile isWhiteSpace (rev (dropWhile isWhiteSpace s)))"

text \<open>\<^verbatim>\<open>s.split("\n")\<close>.\<close>

fun splitLines :: "string \<Rightarrow> string list" where
  "splitLines [] = [[]]"
| "splitLines (c # cs) =
     (if c = CHR 0x0A then [] # splitLines cs
      else (case splitLines cs of
              [] \<Rightarrow> [[c]]
            | l # ls \<Rightarrow> (c # l) # ls))"

definition startsWith :: "string \<Rightarrow> string \<Rightarrow> bool" where
  "startsWith s p = (take (length p) s = p)"

definition endsWith :: "string \<Rightarrow> string \<Rightarrow> bool" where
  "endsWith s p = (length p \<le> length s \<and> drop (length s - length p) s = p)"

fun join :: "string \<Rightarrow> string list \<Rightarrow> string" where
  "join sep [] = []"
| "join sep [x] = x"
| "join sep (x # y # ys) = x @ sep @ join sep (y # ys)"

text \<open>
  The first occurrence of a pattern: the text before it and the text after it.
\<close>

fun findFirst :: "string \<Rightarrow> string \<Rightarrow> (string \<times> string) option" where
  "findFirst pat [] = (if pat = [] then Some ([], []) else None)"
| "findFirst pat (c # cs) =
     (if startsWith (c # cs) pat then Some ([], drop (length pat) (c # cs))
      else (case findFirst pat cs of
              None \<Rightarrow> None
            | Some (pre, post) \<Rightarrow> Some (c # pre, post)))"

text \<open>
  The replacement text of \<^verbatim>\<open>String.prototype.replace\<close> with a string pattern: \<^verbatim>\<open>$$\<close> is a
  dollar, \<^verbatim>\<open>$&\<close> the matched text, \<^verbatim>\<open>$`\<close> the text before the match and \<^verbatim>\<open>$'\<close> the text
  after it; with no capture group every other dollar stands for itself.
\<close>

fun expandReplacement :: "string \<Rightarrow> string \<Rightarrow> string \<Rightarrow> string \<Rightarrow> string" where
  "expandReplacement m pre post [] = []"
| "expandReplacement m pre post [c] = [c]"
| "expandReplacement m pre post (c # d # cs) =
     (if c = CHR ''$'' then
        (if d = CHR ''$'' then CHR ''$'' # expandReplacement m pre post cs
         else if d = CHR ''&'' then m @ expandReplacement m pre post cs
         else if d = CHR 0x60 then pre @ expandReplacement m pre post cs
         else if d = CHR 0x27 then post @ expandReplacement m pre post cs
         else c # expandReplacement m pre post (d # cs))
      else c # expandReplacement m pre post (d # cs))"

definition replace :: "string \<Rightarrow> string \<Rightarrow> string \<Rightarrow> string" where
  "replace s pat rep =
     (case findFirst pat s of
        None \<Rightarrow> s
      | Some (pre, post) \<Rightarrow> pre @ expandReplacement pat pre post rep @ post)"

text \<open>\<^verbatim>\<open>Object.keys\<close>: of an array, its indices.\<close>

fun objectKeys :: "jsvalue \<Rightarrow> string list" where
  "objectKeys (JObj fs) = map fst fs"
| "objectKeys (JArr xs) = map showNat [0..<length xs]"
| "objectKeys (JOther ks r) = ks"
| "objectKeys v = []"

text \<open>
  \<^verbatim>\<open>String(v)\<close>. An array joins the texts of its elements with a comma, null giving the
  empty text. An object that has a property \<^verbatim>\<open>toString\<close> of its own has there a value
  that is no function, and the conversion throws a \<^verbatim>\<open>TypeError\<close>: the result is \<open>None\<close>.
\<close>

datatype jsError = TypeError

fun jsString :: "jsvalue \<Rightarrow> string option" where
  "jsString JNull = Some ''null''"
| "jsString (JBool b) = Some (if b then ''true'' else ''false'')"
| "jsString (JNum s) = Some s"
| "jsString (JStr s) = Some s"
| "jsString (JArr xs) =
     (let parts = map (\<lambda>x. if x = JNull then Some [] else jsString x) xs
      in if None \<in> set parts then None else Some (join '','' (map the parts)))"
| "jsString (JObj fs) =
     (if map_of fs ''toString'' = None then Some ''[object Object]'' else None)"
| "jsString (JOther ks r) = Some r"

text \<open>The truth value of \<^verbatim>\<open>!!v\<close>.\<close>

fun truthy :: "jsvalue option \<Rightarrow> bool" where
  "truthy None = False"
| "truthy (Some JNull) = False"
| "truthy (Some (JBool b)) = b"
| "truthy (Some (JNum s)) = (s \<noteq> ''0'' \<and> s \<noteq> ''NaN'')"
| "truthy (Some (JStr s)) = (s \<noteq> [])"
| "truthy (Some v) = True"

subsection \<open>The collaborators\<close>

text \<open>
  The rule table is \<^verbatim>\<open>rules.json\<close>, which gives every rule a severity and a message. The
  host is what the validator calls outside itself: \<^verbatim>\<open>fs.statSync(p).size\<close> and
  \<^verbatim>\<open>fs.readFileSync(p, "utf8")\<close> (\<open>Inl\<close> carries the message of the error thrown),
  \<^verbatim>\<open>fs.existsSync\<close>, \<^verbatim>\<open>load\<close> of js-yaml (\<open>Inl\<close> the message of the error thrown, \<open>Inr None\<close>
  undefined), and \<^verbatim>\<open>path.resolve\<close>, \<^verbatim>\<open>path.dirname\<close>, \<^verbatim>\<open>path.basename\<close>.
\<close>

type_synonym ruleTable = "RuleId \<Rightarrow> RuleDefinition"

record host =
  statSize :: "string \<Rightarrow> string + nat"
  readFileSync :: "string \<Rightarrow> string + string"
  existsSync :: "string \<Rightarrow> bool"
  load :: "string \<Rightarrow> string + jsvalue option"
  resolve :: "string \<Rightarrow> string \<Rightarrow> string"
  dirname :: "string \<Rightarrow> string"
  basename :: "string \<Rightarrow> string"

subsection \<open>Issues\<close>

definition DESCRIPTION_MIN_QUALITY :: nat where
  "DESCRIPTION_MIN_QUALITY = 50"

definition BODY_MAX_LINES :: nat where
  "BODY_MAX_LINES = 1000"

definition MAX_FILE_SIZE_KB :: nat where
  "MAX_FILE_SIZE_KB = 512"

text \<open>The chain of \<^verbatim>\<open>replace\<close> calls of \<open>createIssue\<close>, each on the result of the one before.\<close>

definition renderMessage :: "string \<Rightarrow> string \<Rightarrow> string" where
  "renderMessage template detail =
     replace (replace (replace (replace (replace (replace (replace (replace template
       ''{detail}'' detail)
       ''{length}'' detail)
       ''{lines}'' detail)
       ''{value}'' detail)
       ''{field}'' detail)
       ''{path}'' detail)
       ''{index}'' detail)
       ''{knownFields}'' (join '', '' KNOWN_FIELDS)"

text \<open>A detail is substituted when it is truthy: neither null nor the empty string.\<close>

definition createIssue ::
  "ruleTable \<Rightarrow> RuleId \<Rightarrow> string option \<Rightarrow> string option \<Rightarrow> nat option \<Rightarrow> ValidationIssue" where
  "createIssue rules rid detail fname ln =
     (let rule = rules rid;
          msg = (case detail of
                   None \<Rightarrow> ruleMessage rule
                 | Some d \<Rightarrow> if d \<noteq> [] then renderMessage (ruleMessage rule) d
                             else ruleMessage rule)
      in \<lparr>ruleId = rid, message = msg, severity = ruleSeverity rule,
          issueFile = fname, issueLine = ln\<rparr>)"

text \<open>
  The two arrays \<^verbatim>\<open>errors\<close> and \<^verbatim>\<open>warnings\<close> that the validators push to are passed as a
  pair and returned updated.
\<close>

type_synonym issues = "ValidationIssue list \<times> ValidationIssue list"

definition addIssue ::
  "ruleTable \<Rightarrow> RuleId \<Rightarrow> string option \<Rightarrow> issues \<Rightarrow> string list \<Rightarrow> string option
     \<Rightarrow> nat option \<Rightarrow> issues" where
  "addIssue rules rid detail acc ign fname ln =
     (if ruleIdText rid \<in> set ign then acc
      else
        (let issue = createIssue rules rid detail fname ln
         in if severity issue = SevError then (fst acc @ [issue], snd acc)
            else (fst acc, snd acc @ [issue])))"

subsection \<open>Splitting and parsing\<close>

text \<open>
  \<open>extractFrontmatter\<close> matches the file against
  \<^verbatim>\<open>/^---\r?\n([\s\S]*?)\r?\n---\r?\n?([\s\S]*)$/\<close>. The pieces of the expression, in its
  order: \<open>openDelimiter\<close> is \<^verbatim>\<open>^---\r?\n\<close> and gives the text after it; \<open>closeDelimiter\<close> is
  \<^verbatim>\<open>\r?\n---\<close> at the head of a text; \<open>afterClose\<close> is \<^verbatim>\<open>\r?\n?([\s\S]*)$\<close>, which takes
  the carriage return and the line feed when they are there; \<open>findClose\<close> is the lazy
  group, which grows the header one code unit at a time until the closing delimiter
  follows.
\<close>

definition openDelimiter :: "string \<Rightarrow> string option" where
  "openDelimiter s =
     (if startsWith s [CHR ''-'', CHR ''-'', CHR ''-'', CHR 0x0D, CHR 0x0A] then Some (drop 5 s)
      else if startsWith s [CHR ''-'', CHR ''-'', CHR ''-'', CHR 0x0A] then Some (drop 4 s)
      else None)"

definition closeDelimiter :: "string \<Rightarrow> string option" where
  "closeDelimiter s =
     (if startsWith s [CHR 0x0D, CHR 0x0A, CHR ''-'', CHR ''-'', CHR ''-''] then Some (drop 5 s)
      else if startsWith s [CHR 0x0A, CHR ''-'', CHR ''-'', CHR ''-''] then Some (drop 4 s)
      else None)"

definition afterClose :: "string \<Rightarrow> string" where
  "afterClose s =
     (let s1 = (if startsWith s [CHR 0x0D] then drop 1 s else s)
      in if startsWith s1 [CHR 0x0A] then drop 1 s1 else s1)"

fun findClose :: "string \<Rightarrow> (string \<times> string) option" where
  "findClose [] = None"
| "findClose (c # cs) =
     (case closeDelimiter (c # cs) of
        Some rest \<Rightarrow> Some ([], afterClose rest)
      | None \<Rightarrow>
          (case findClose cs of
             None \<Rightarrow> None
           | Some (header, body) \<Rightarrow> Some (c # header, body)))"

text \<open>The result is the pair of \<^verbatim>\<open>frontmatter\<close> (\<open>None\<close> for null) and \<^verbatim>\<open>body\<close>.\<close>

definition extractFrontmatter :: "string \<Rightarrow> string option \<times> string" where
  "extractFrontmatter content =
     (case openDelimiter content of
        None \<Rightarrow> (None, content)
      | Some rest \<Rightarrow>
          (case findClose rest of
             None \<Rightarrow> (None, content)
           | Some (header, body) \<Rightarrow> (Some header, body)))"

definition isAgentFrontmatter :: "jsvalue option \<Rightarrow> bool" where
  "isAgentFrontmatter d = (typeofObject d \<and> d \<noteq> Some JNull)"

datatype ParseResult = ParseSuccess jsvalue string | ParseFailure ParseError

text \<open>
  \<^verbatim>\<open>Math.round(stats.size / 1024)\<close> rounds a half up: it is \<open>(sz + 512) div 1024\<close>. A value
  that passes \<open>isAgentFrontmatter\<close> is not undefined.
\<close>

definition parseAgentFile :: "host \<Rightarrow> string \<Rightarrow> ParseResult" where
  "parseAgentFile h path =
     (case statSize h path of
        Inl err \<Rightarrow> ParseFailure (ParseError (''Failed to read file: '' @ err) None)
      | Inr sz \<Rightarrow>
          if sz > MAX_FILE_SIZE_KB * 1024 then
            ParseFailure (ParseError
              (''File too large ('' @ showNat ((sz + 512) div 1024) @ ''KB). Maximum: ''
                 @ showNat MAX_FILE_SIZE_KB @ ''KB'') None)
          else
            (case readFileSync h path of
               Inl err \<Rightarrow> ParseFailure (ParseError (''Failed to read file: '' @ err) None)
             | Inr content \<Rightarrow>
                 (case extractFrontmatter content of
                    (None, body) \<Rightarrow>
                      ParseFailure (ParseError
                        ''Agent file must contain YAML frontmatter (content between --- markers)''
                        (Some FrontmatterRequired))
                  | (Some frontmatter, body) \<Rightarrow>
                      (case load h frontmatter of
                         Inl err \<Rightarrow>
                           ParseFailure (ParseError (''Invalid YAML frontmatter: '' @ err)
                             (Some FrontmatterValid))
                       | Inr parsed \<Rightarrow>
                           if \<not> isAgentFrontmatter parsed then
                             ParseFailure (ParseError ''Frontmatter must be a valid YAML object''
                               (Some FrontmatterValid))
                           else
                             (case parsed of
                                Some data \<Rightarrow> ParseSuccess data body
                              | None \<Rightarrow>
                                  ParseFailure (ParseError
                                    ''Frontmatter must be a valid YAML object''
                                    (Some FrontmatterValid)))))))"

subsection \<open>Field validators\<close>

fun validateDescription ::
  "ruleTable \<Rightarrow> jsvalue option \<Rightarrow> issues \<Rightarrow> string list \<Rightarrow> string \<Rightarrow> issues" where
  "validateDescription rules None acc ign fname =
     addIssue rules DescriptionFormat None acc ign (Some fname) None"
| "validateDescription rules (Some JNull) acc ign fname =
     addIssue rules DescriptionFormat None acc ign (Some fname) None"
| "validateDescription rules (Some (JStr description)) acc ign fname =
     (if length (trim description) = 0 then
        addIssue rules DescriptionFormat None acc ign (Some fname) None
      else if length description < DESCRIPTION_MIN_QUALITY then
        addIssue rules DescriptionQuality (Some (showNat (length description))) acc ign
          (Some fname) None
      else acc)"
| "validateDescription rules (Some v) acc ign fname =
     addIssue rules DescriptionFormat (Some ''must be a string'') acc ign (Some fname) None"

definition validateName ::
  "ruleTable \<Rightarrow> jsvalue option \<Rightarrow> issues \<Rightarrow> string list \<Rightarrow> string \<Rightarrow> issues" where
  "validateName rules name acc ign fname =
     (if name = None \<or> name = Some JNull then acc
      else if \<not> isString name then addIssue rules NameFormat None acc ign (Some fname) None
      else acc)"

definition validateArgumentHint ::
  "ruleTable \<Rightarrow> jsvalue option \<Rightarrow> issues \<Rightarrow> string list \<Rightarrow> string \<Rightarrow> issues" where
  "validateArgumentHint rules hint acc ign fname =
     (if hint = None \<or> hint = Some JNull then acc
      else if \<not> isString hint then
        addIssue rules ArgumentHintFormat None acc ign (Some fname) None
      else acc)"

text \<open>
  The loop \<^verbatim>\<open>for (let i = 0; i < xs.length; i++)\<close> of \<open>validateTools\<close>, \<open>validateAgents\<close> and
  \<open>validateModel\<close>, from index \<open>i\<close> on: one issue of the rule for every item that is not a
  string.
\<close>

fun stringItems ::
  "ruleTable \<Rightarrow> RuleId \<Rightarrow> jsvalue list \<Rightarrow> nat \<Rightarrow> issues \<Rightarrow> string list \<Rightarrow> string \<Rightarrow> issues" where
  "stringItems rules rid [] i acc ign fname = acc"
| "stringItems rules rid (x # xs) i acc ign fname =
     stringItems rules rid xs (Suc i)
       (if \<not> isString (Some x) then
          addIssue rules rid (Some (''Item at index '' @ showNat i @ '' is not a string''))
            acc ign (Some fname) None
        else acc)
       ign fname"

fun validateTools ::
  "ruleTable \<Rightarrow> jsvalue option \<Rightarrow> issues \<Rightarrow> string list \<Rightarrow> string \<Rightarrow> issues" where
  "validateTools rules None acc ign fname = acc"
| "validateTools rules (Some JNull) acc ign fname = acc"
| "validateTools rules (Some (JArr tools)) acc ign fname =
     stringItems rules ToolsFormat tools 0 acc ign fname"
| "validateTools rules (Some v) acc ign fname =
     addIssue rules ToolsFormat (Some ''Expected an array'') acc ign (Some fname) None"

definition validateAgents ::
  "ruleTable \<Rightarrow> jsvalue option \<Rightarrow> issues \<Rightarrow> string list \<Rightarrow> string \<Rightarrow> issues" where
  "validateAgents rules agents acc ign fname =
     (if agents = None \<or> agents = Some JNull then acc
      else if agents = Some (JStr ''*'') then acc
      else
        (case agents of
           Some (JArr items) \<Rightarrow> stringItems rules AgentsFormat items 0 acc ign fname
         | _ \<Rightarrow>
             addIssue rules AgentsFormat
               (Some (''Expected an array or '' @ [CHR 0x27] @ ''*'' @ [CHR 0x27]))
               acc ign (Some fname) None))"

fun validateModel ::
  "ruleTable \<Rightarrow> jsvalue option \<Rightarrow> issues \<Rightarrow> string list \<Rightarrow> string \<Rightarrow> issues" where
  "validateModel rules None acc ign fname = acc"
| "validateModel rules (Some JNull) acc ign fname = acc"
| "validateModel rules (Some (JStr model)) acc ign fname = acc"
| "validateModel rules (Some (JArr model)) acc ign fname =
     stringItems rules ModelFormat model 0 acc ign fname"
| "validateModel rules (Some v) acc ign fname =
     addIssue rules ModelFormat (Some ''Expected a string or array of strings'') acc ign
       (Some fname) None"

definition validateBooleanField ::
  "ruleTable \<Rightarrow> jsvalue option \<Rightarrow> RuleId \<Rightarrow> issues \<Rightarrow> string list \<Rightarrow> string \<Rightarrow> issues" where
  "validateBooleanField rules v rid acc ign fname =
     (if v = None \<or> v = Some JNull then acc
      else if \<not> isBoolean v then addIssue rules rid None acc ign (Some fname) None
      else acc)"

text \<open>
  \<open>validateTarget\<close> converts the value with \<^verbatim>\<open>String(target)\<close> before it calls \<open>addIssue\<close>;
  where the conversion throws, the validator throws.
\<close>

fun validateTarget ::
  "ruleTable \<Rightarrow> jsvalue option \<Rightarrow> issues \<Rightarrow> string list \<Rightarrow> string \<Rightarrow> jsError + issues" where
  "validateTarget rules None acc ign fname = Inr acc"
| "validateTarget rules (Some JNull) acc ign fname = Inr acc"
| "validateTarget rules (Some v) acc ign fname =
     (if \<not> isString (Some v) \<or> (case v of JStr s \<Rightarrow> s \<notin> set VALID_TARGETS | _ \<Rightarrow> True) then
        (case jsString v of
           None \<Rightarrow> Inl TypeError
         | Some d \<Rightarrow> Inr (addIssue rules TargetValid (Some d) acc ign (Some fname) None))
      else Inr acc)"

definition validateMcpServers ::
  "ruleTable \<Rightarrow> jsvalue option \<Rightarrow> issues \<Rightarrow> string list \<Rightarrow> string \<Rightarrow> issues" where
  "validateMcpServers rules mcpServers acc ign fname =
     (if mcpServers = None \<or> mcpServers = Some JNull then acc
      else if \<not> isArray mcpServers then
        addIssue rules McpServersFormat None acc ign (Some fname) None
      else acc)"

subsection \<open>Handoffs\<close>

text \<open>
  The first test of \<open>validateHandoff\<close> is \<^verbatim>\<open>typeof handoff !== "object" || handoff === null\<close>.
  The four checks after it run one after the other on the lists the one before left.
\<close>

definition validateHandoff ::
  "ruleTable \<Rightarrow> jsvalue \<Rightarrow> nat \<Rightarrow> issues \<Rightarrow> string list \<Rightarrow> string \<Rightarrow> issues" where
  "validateHandoff rules handoff index acc ign fname =
     (if \<not> typeofObject (Some handoff) \<or> handoff = JNull then
        addIssue rules HandoffsFormat
          (Some (''Item at index '' @ showNat index @ '' is not an object''))
          acc ign (Some fname) None
      else
        (let acc1 =
               (if \<not> truthy (getProp handoff ''label'') \<or> \<not> isString (getProp handoff ''label'')
                then addIssue rules HandoffLabelRequired (Some (showNat index)) acc ign
                       (Some fname) None
                else acc);
             acc2 =
               (if \<not> truthy (getProp handoff ''agent'') \<or> \<not> isString (getProp handoff ''agent'')
                then addIssue rules HandoffAgentRequired (Some (showNat index)) acc1 ign
                       (Some fname) None
                else acc1);
             acc3 =
               (if getProp handoff ''send'' \<noteq> None \<and> \<not> isBoolean (getProp handoff ''send'')
                then addIssue rules HandoffSendFormat (Some (showNat index)) acc2 ign
                       (Some fname) None
                else acc2)
         in if getProp handoff ''model'' \<noteq> None \<and> \<not> isString (getProp handoff ''model'')
            then addIssue rules HandoffModelFormat (Some (showNat index)) acc3 ign
                   (Some fname) None
            else acc3))"

text \<open>The loop of \<open>validateHandoffs\<close> from index \<open>i\<close> on.\<close>

fun handoffItems ::
  "ruleTable \<Rightarrow> jsvalue list \<Rightarrow> nat \<Rightarrow> issues \<Rightarrow> string list \<Rightarrow> string \<Rightarrow> issues" where
  "handoffItems rules [] i acc ign fname = acc"
| "handoffItems rules (x # xs) i acc ign fname =
     handoffItems rules xs (Suc i) (validateHandoff rules x i acc ign fname) ign fname"

fun validateHandoffs ::
  "ruleTable \<Rightarrow> jsvalue option \<Rightarrow> issues \<Rightarrow> string list \<Rightarrow> string \<Rightarrow> issues" where
  "validateHandoffs rules None acc ign fname = acc"
| "validateHandoffs rules (Some JNull) acc ign fname = acc"
| "validateHandoffs rules (Some (JArr handoffs)) acc ign fname =
     handoffItems rules handoffs 0 acc ign fname"
| "validateHandoffs rules (Some v) acc ign fname =
     addIssue rules HandoffsFormat None acc ign (Some fname) None"

subsection \<open>The deprecated field, unknown fields, the body\<close>

definition validateInfer ::
  "ruleTable \<Rightarrow> jsvalue option \<Rightarrow> issues \<Rightarrow> string list \<Rightarrow> string \<Rightarrow> issues" where
  "validateInfer rules infer acc ign fname =
     (if infer \<noteq> None then addIssue rules InferDeprecated None acc ign (Some fname) None
      else acc)"

fun unknownKeys ::
  "ruleTable \<Rightarrow> string list \<Rightarrow> issues \<Rightarrow> string list \<Rightarrow> string \<Rightarrow> issues" where
  "unknownKeys rules [] acc ign fname = acc"
| "unknownKeys rules (key # keys) acc ign fname =
     unknownKeys rules keys
       (if key \<notin> set KNOWN_FIELDS then
          addIssue rules UnknownField (Some key) acc ign (Some fname) None
        else acc)
       ign fname"

definition validateUnknownFields ::
  "ruleTable \<Rightarrow> jsvalue \<Rightarrow> issues \<Rightarrow> string list \<Rightarrow> string \<Rightarrow> issues" where
  "validateUnknownFields rules data acc ign fname =
     unknownKeys rules (objectKeys data) acc ign fname"

definition validateBody ::
  "ruleTable \<Rightarrow> string \<Rightarrow> issues \<Rightarrow> string list \<Rightarrow> string \<Rightarrow> issues" where
  "validateBody rules body acc ign fname =
     (if body = [] \<or> length (trim body) = 0 then
        addIssue rules BodyEmpty None acc ign (Some fname) None
      else
        (let lines = length (splitLines body)
         in if lines > BODY_MAX_LINES then
              addIssue rules BodyTooLong (Some (showNat lines)) acc ign (Some fname) None
            else acc))"

subsection \<open>References\<close>

text \<open>
  One match of \<^verbatim>\<open>/\[([^\]]*)\]\(([^)]+)\)/\<close> at the head of a text: the second group and the
  text after the match. The first group runs to the first closing bracket, which an
  opening parenthesis must follow; the second group runs to the first closing
  parenthesis and is not empty.
\<close>

fun matchLinkAt :: "string \<Rightarrow> (string \<times> string) option" where
  "matchLinkAt [] = None"
| "matchLinkAt (c # cs) =
     (if c \<noteq> CHR ''['' then None
      else
        (case dropWhile (\<lambda>x. x \<noteq> CHR '']'') cs of
           [] \<Rightarrow> None
         | b # r1 \<Rightarrow>
             (case r1 of
                [] \<Rightarrow> None
              | p # r2 \<Rightarrow>
                  if p \<noteq> CHR ''('' then None
                  else
                    (case dropWhile (\<lambda>x. x \<noteq> CHR '')'') r2 of
                       [] \<Rightarrow> None
                     | q # r3 \<Rightarrow>
                         if takeWhile (\<lambda>x. x \<noteq> CHR '')'') r2 = [] then None
                         else Some (takeWhile (\<lambda>x. x \<noteq> CHR '')'') r2, r3)))))"

text \<open>
  The targets of all the matches, in the order \<^verbatim>\<open>linkRegex.exec\<close> finds them: a search
  starts where the match before it ended.
\<close>

function linkTargets :: "string \<Rightarrow> string list" where
  "linkTargets [] = []"
| "linkTargets (c # cs) =
     (case matchLinkAt (c # cs) of
        Some (target, rest) \<Rightarrow> target # linkTargets rest
      | None \<Rightarrow> linkTargets cs)"
  by pat_completeness auto
termination
proof (relation "measure length")
  show "wf (measure length)" by simp
next
  fix c :: char and cs
  show "(cs, c # cs) \<in> measure length" by simp
next
  fix c :: char and cs x2 target rest
  assume m: "matchLinkAt (c # cs) = Some x2" and x2: "(target, rest) = x2"
  have a: "length (dropWhile P xs) \<le> length xs" for P and xs :: string
    by (rule length_dropWhile_le)
  from m x2 obtain b p r2 q where
    d1: "dropWhile (\<lambda>x. x \<noteq> CHR '']'') cs = b # p # r2" and
    d2: "dropWhile (\<lambda>x. x \<noteq> CHR '')'') r2 = q # rest"
    by (auto split: if_splits list.splits)
  from a [of "\<lambda>x. x \<noteq> CHR '']''" cs] d1 have "length r2 < length cs" by simp
  moreover from a [of "\<lambda>x. x \<noteq> CHR '')''" r2] d2 have "length rest < length r2" by simp
  ultimately show "(rest, c # cs) \<in> measure length" by simp
qed

fun referenceLinks ::
  "ruleTable \<Rightarrow> host \<Rightarrow> string list \<Rightarrow> string \<Rightarrow> issues \<Rightarrow> string list \<Rightarrow> string \<Rightarrow> issues" where
  "referenceLinks rules h [] agentDir acc ign fname = acc"
| "referenceLinks rules h (linkPath # rest) agentDir acc ign fname =
     referenceLinks rules h rest agentDir
       (if startsWith linkPath ''http://'' \<or> startsWith linkPath ''https://''
           \<or> startsWith linkPath ''#''
        then acc
        else if \<not> existsSync h (resolve h agentDir linkPath) then
          addIssue rules ReferenceNotFound (Some linkPath) acc ign (Some fname) None
        else acc)
       ign fname"

definition validateFileReferences ::
  "ruleTable \<Rightarrow> host \<Rightarrow> string \<Rightarrow> string \<Rightarrow> issues \<Rightarrow> string list \<Rightarrow> string \<Rightarrow> issues" where
  "validateFileReferences rules h body agentDir acc ign fname =
     referenceLinks rules h (linkTargets body) agentDir acc ign fname"

subsection \<open>One file\<close>

text \<open>
  \<open>validateAgentFile\<close> starts from two empty lists. The lines it writes with \<^verbatim>\<open>info\<close> are
  appended to the log it is given. It returns \<open>Inl\<close> where \<open>validateTarget\<close> throws, and
  the result record otherwise.
\<close>

definition validateAgentFile ::
  "ruleTable \<Rightarrow> host \<Rightarrow> string \<Rightarrow> ValidateOptions \<Rightarrow> string list
     \<Rightarrow> (jsError + FileValidationResult) \<times> string list" where
  "validateAgentFile rules h path options log =
     (let ign = ignoreRules options;
          checkRefs = validateReferences options;
          log1 = (if endsWith path ''.chatmode.md''
                  then log @ [''Note: '' @ basename h path
                                @ '' uses legacy .chatmode.md extension'']
                  else log)
      in case parseAgentFile h path of
           ParseFailure e \<Rightarrow>
             (Inr \<lparr>resultFile = path, valid = False,
                   errors = [createIssue rules
                               (case errorRuleId e of
                                  None \<Rightarrow> FrontmatterRequired
                                | Some r \<Rightarrow> r)
                               (Some (errorMessage e)) (Some path) None],
                   warnings = []\<rparr>, log1)
         | ParseSuccess data body \<Rightarrow>
             (let a1 = validateDescription rules (getProp data ''description'') ([], []) ign path;
                  a2 = validateName rules (getProp data ''name'') a1 ign path;
                  a3 = validateArgumentHint rules (getProp data ''argument-hint'') a2 ign path;
                  a4 = validateTools rules (getProp data ''tools'') a3 ign path;
                  a5 = validateAgents rules (getProp data ''agents'') a4 ign path;
                  a6 = validateModel rules (getProp data ''model'') a5 ign path;
                  a7 = validateBooleanField rules (getProp data ''user-invokable'')
                         UserInvokableFormat a6 ign path;
                  a8 = validateBooleanField rules (getProp data ''disable-model-invocation'')
                         DisableModelInvocationFormat a7 ign path
              in case validateTarget rules (getProp data ''target'') a8 ign path of
                   Inl exn \<Rightarrow> (Inl exn, log1)
                 | Inr a9 \<Rightarrow>
                     (let a10 = validateMcpServers rules (getProp data ''mcp-servers'') a9 ign path;
                          a11 = validateHandoffs rules (getProp data ''handoffs'') a10 ign path;
                          a12 = validateInfer rules (getProp data ''infer'') a11 ign path;
                          a13 = validateUnknownFields rules data a12 ign path;
                          a14 = validateBody rules body a13 ign path;
                          a15 = (if checkRefs then
                                   validateFileReferences rules h body (dirname h path) a14
                                     ign path
                                 else a14)
                      in (Inr \<lparr>resultFile = path, valid = (length (fst a15) = 0),
                                errors = fst a15, warnings = snd a15\<rparr>, log1))))"

subsection \<open>What the statements below speak of\<close>



text \<open>The number a text of decimal digits stands for.\<close>

definition digitValue :: "char \<Rightarrow> nat" where
  "digitValue c = of_char c - 48"

definition decimalValue :: "string \<Rightarrow> nat" where
  "decimalValue s = foldl (\<lambda>n c. 10 * n + digitValue c) 0 s"

text \<open>
  The push at the end of \<open>addIssue\<close>: to the errors when the severity is \<^verbatim>\<open>"error"\<close>, to the
  warnings otherwise.
\<close>

definition pushIssue :: "ValidationIssue \<Rightarrow> issues \<Rightarrow> issues" where
  "pushIssue issue acc =
     (if severity issue = SevError then (fst acc @ [issue], snd acc)
      else (fst acc, snd acc @ [issue]))"

text \<open>The rule identifiers of the issues in the two lists, errors first.\<close>

definition ruleIds :: "issues \<Rightarrow> RuleId list" where
  "ruleIds acc = map ruleId (fst acc @ snd acc)"

text \<open>No issue of the two lists has a rule of the ignore list.\<close>

definition noneIgnored :: "string list \<Rightarrow> issues \<Rightarrow> bool" where
  "noneIgnored ign acc = (\<forall>i \<in> set (fst acc @ snd acc). ruleIdText (ruleId i) \<notin> set ign)"

subsection \<open>A rule table and a host for the closed examples\<close>

text \<open>
  Modelled from the spec: \<^verbatim>\<open>rules.json\<close> is not among the sources. The severities of this
  table are the spec's where it gives them (section 4.3 and 4.5: the description's quality,
  the deprecated field, an unknown field and an empty body are warnings, the format rules
  are errors); the message templates are stand-ins that hold the token a rule substitutes.
  The theorems hold for every table; this one serves the closed examples only.
\<close>

definition sampleRules :: ruleTable where
  "sampleRules rid =
     \<lparr>ruleSeverity =
        (if rid \<in> set [DescriptionQuality, InferDeprecated, UnknownField, BodyEmpty, BodyTooLong,
                        ReferenceNotFound]
         then SevWarning else SevError),
      ruleMessage =
        (if rid = DescriptionQuality then ''Description is short ({length} characters)''
         else if rid = HandoffLabelRequired then ''Handoff {index} needs a label''
         else if rid = HandoffAgentRequired then ''Handoff {index} needs an agent''
         else ruleIdText rid @ '': {detail}'')\<rparr>"

text \<open>
  Three files. \<^verbatim>\<open>plain.agent.md\<close> has no header; \<^verbatim>\<open>good.agent.md\<close> has a description of 52
  characters and the deprecated field; \<^verbatim>\<open>big.agent.md\<close> is 600000 bytes long. Any other path
  does not exist. The decoder knows the header of \<^verbatim>\<open>good.agent.md\<close>.
\<close>

definition plainContent :: string where
  "plainContent = ''Just some text''"

definition goodHeader :: string where
  "goodHeader =
     ''description: Plans a change and hands it over to the implementer!'' @ [CHR 0x0A]
       @ ''infer: true''"

definition goodContent :: string where
  "goodContent = ''---'' @ [CHR 0x0A] @ goodHeader @ [CHR 0x0A] @ ''---'' @ [CHR 0x0A] @ ''Body''"

definition sampleHost :: host where
  "sampleHost =
     \<lparr>statSize = (\<lambda>p.
        if p = ''plain.agent.md'' then Inr (length plainContent)
        else if p = ''good.agent.md'' then Inr (length goodContent)
        else if p = ''big.agent.md'' then Inr 600000
        else Inl ''ENOENT: no such file or directory''),
      readFileSync = (\<lambda>p.
        if p = ''plain.agent.md'' then Inr plainContent
        else if p = ''good.agent.md'' then Inr goodContent
        else Inl ''ENOENT: no such file or directory''),
      existsSync = (\<lambda>p. False),
      load = (\<lambda>s.
        if s = goodHeader then
          Inr (Some (JObj [(''description'',
                             JStr ''Plans a change and hands it over to the implementer!''),
                           (''infer'', JBool True)]))
        else if s = [] then Inr None
        else Inl ''unexpected input''),
      resolve = (\<lambda>d p. d @ ''/'' @ p),
      dirname = (\<lambda>p. ''.''),
      basename = (\<lambda>p. p)\<rparr>"

text \<open>
  Options with a given ignore list, reference checking on. \<open>validateAgentFile\<close> takes the
  path as its first argument and does not read \<^verbatim>\<open>options.filePath\<close>.
\<close>

definition sampleOptions :: "string list \<Rightarrow> ValidateOptions" where
  "sampleOptions ign = \<lparr>ignoreRules = ign, validateReferences = True, filePath = []\<rparr>"

text \<open>What validating \<^verbatim>\<open>good.agent.md\<close> with no ignore list gives.\<close>

definition goodResult :: FileValidationResult where
  "goodResult =
     \<lparr>resultFile = ''good.agent.md'', valid = True, errors = [],
      warnings = [\<lparr>ruleId = InferDeprecated, message = ''infer-deprecated: {detail}'',
                    severity = SevWarning, issueFile = Some ''good.agent.md'',
                    issueLine = None\<rparr>]\<rparr>"

section \<open>Properties\<close>

subsection \<open>Issues are appended, and never under an ignored rule\<close>

lemma ruleId_createIssue [simp]: "ruleId (createIssue rules rid d f l) = rid"
  by (simp add: createIssue_def Let_def)

lemma severity_createIssue [simp]:
  "severity (createIssue rules rid d f l) = ruleSeverity (rules rid)"
  by (simp add: createIssue_def Let_def)

lemma noneIgnored_addIssue:
  "noneIgnored ign acc \<Longrightarrow> noneIgnored ign (addIssue rules rid d acc ign f l)"
  by (auto simp: noneIgnored_def addIssue_def Let_def)

lemma noneIgnored_validateDescription:
  "noneIgnored ign acc \<Longrightarrow> noneIgnored ign (validateDescription rules d acc ign f)"
  by (induction rules d acc ign f rule: validateDescription.induct)
     (simp_all add: noneIgnored_addIssue)

lemma noneIgnored_validateName:
  "noneIgnored ign acc \<Longrightarrow> noneIgnored ign (validateName rules d acc ign f)"
  by (simp add: validateName_def noneIgnored_addIssue)

lemma noneIgnored_validateArgumentHint:
  "noneIgnored ign acc \<Longrightarrow> noneIgnored ign (validateArgumentHint rules d acc ign f)"
  by (simp add: validateArgumentHint_def noneIgnored_addIssue)

lemma noneIgnored_stringItems:
  "noneIgnored ign acc \<Longrightarrow> noneIgnored ign (stringItems rules rid xs i acc ign f)"
  by (induction xs arbitrary: i acc) (simp_all add: noneIgnored_addIssue)

lemma noneIgnored_validateTools:
  "noneIgnored ign acc \<Longrightarrow> noneIgnored ign (validateTools rules d acc ign f)"
  by (induction rules d acc ign f rule: validateTools.induct)
     (simp_all add: noneIgnored_addIssue noneIgnored_stringItems)

lemma noneIgnored_validateAgents:
  "noneIgnored ign acc \<Longrightarrow> noneIgnored ign (validateAgents rules d acc ign f)"
  by (simp add: validateAgents_def noneIgnored_addIssue noneIgnored_stringItems
           split: option.splits jsvalue.splits)

lemma noneIgnored_validateModel:
  "noneIgnored ign acc \<Longrightarrow> noneIgnored ign (validateModel rules d acc ign f)"
  by (induction rules d acc ign f rule: validateModel.induct)
     (simp_all add: noneIgnored_addIssue noneIgnored_stringItems)

lemma noneIgnored_validateBooleanField:
  "noneIgnored ign acc \<Longrightarrow> noneIgnored ign (validateBooleanField rules d rid acc ign f)"
  by (simp add: validateBooleanField_def noneIgnored_addIssue)

lemma noneIgnored_validateTarget:
  "noneIgnored ign acc \<Longrightarrow> validateTarget rules d acc ign f = Inr acc' \<Longrightarrow> noneIgnored ign acc'"
  by (induction rules d acc ign f rule: validateTarget.induct)
     (auto simp: noneIgnored_addIssue split: if_splits option.splits)

lemma noneIgnored_validateMcpServers:
  "noneIgnored ign acc \<Longrightarrow> noneIgnored ign (validateMcpServers rules d acc ign f)"
  by (simp add: validateMcpServers_def noneIgnored_addIssue)

lemma noneIgnored_validateHandoff:
  "noneIgnored ign acc \<Longrightarrow> noneIgnored ign (validateHandoff rules x i acc ign f)"
  by (simp add: validateHandoff_def Let_def noneIgnored_addIssue)

lemma noneIgnored_handoffItems:
  "noneIgnored ign acc \<Longrightarrow> noneIgnored ign (handoffItems rules xs i acc ign f)"
  by (induction xs arbitrary: i acc) (simp_all add: noneIgnored_validateHandoff)

lemma noneIgnored_validateHandoffs:
  "noneIgnored ign acc \<Longrightarrow> noneIgnored ign (validateHandoffs rules d acc ign f)"
  by (induction rules d acc ign f rule: validateHandoffs.induct)
     (simp_all add: noneIgnored_addIssue noneIgnored_handoffItems)

lemma noneIgnored_validateInfer:
  "noneIgnored ign acc \<Longrightarrow> noneIgnored ign (validateInfer rules d acc ign f)"
  by (simp add: validateInfer_def noneIgnored_addIssue)

lemma noneIgnored_unknownKeys:
  "noneIgnored ign acc \<Longrightarrow> noneIgnored ign (unknownKeys rules ks acc ign f)"
  by (induction ks arbitrary: acc) (simp_all add: noneIgnored_addIssue)

lemma noneIgnored_validateUnknownFields:
  "noneIgnored ign acc \<Longrightarrow> noneIgnored ign (validateUnknownFields rules d acc ign f)"
  by (simp add: validateUnknownFields_def noneIgnored_unknownKeys)

lemma noneIgnored_validateBody:
  "noneIgnored ign acc \<Longrightarrow> noneIgnored ign (validateBody rules b acc ign f)"
  by (simp add: validateBody_def Let_def noneIgnored_addIssue)

lemma noneIgnored_referenceLinks:
  "noneIgnored ign acc \<Longrightarrow> noneIgnored ign (referenceLinks rules h ls d acc ign f)"
  by (induction ls arbitrary: acc) (simp_all add: noneIgnored_addIssue)

lemma noneIgnored_validateFileReferences:
  "noneIgnored ign acc \<Longrightarrow> noneIgnored ign (validateFileReferences rules h b d acc ign f)"
  by (simp add: validateFileReferences_def noneIgnored_referenceLinks)

lemma noneIgnored_empty: "noneIgnored ign ([], [])"
  by (simp add: noneIgnored_def)

lemmas noneIgnored_steps =
  noneIgnored_validateDescription noneIgnored_validateName noneIgnored_validateArgumentHint
  noneIgnored_validateTools noneIgnored_validateAgents noneIgnored_validateModel
  noneIgnored_validateBooleanField noneIgnored_validateMcpServers noneIgnored_validateHandoffs
  noneIgnored_validateInfer noneIgnored_validateUnknownFields noneIgnored_validateBody
  noneIgnored_validateFileReferences noneIgnored_empty

subsection \<open>The splitter finds the delimiter pair\<close>


lemma startsWith_append [simp]: "startsWith (p @ s) p"
  by (simp add: startsWith_def)





subsection \<open>Numbers as text, blank text, lines\<close>

lemma digit_value: "d < 10 \<Longrightarrow> digitValue (''0123456789'' ! d) = d"
proof -
  assume "d < 10"
  then have "d \<in> {0, 1, 2, 3, 4, 5, 6, 7, 8, 9}" by auto
  then show ?thesis by (auto simp: digitValue_def)
qed

lemma decimalValue_snoc: "decimalValue (s @ [c]) = 10 * decimalValue s + digitValue c"
  by (simp add: decimalValue_def)

lemma decimalValue_showNat: "decimalValue (showNat n) = n"
proof (induction n rule: showNat.induct)
  case (1 n)
  show ?case
  proof (cases "n < 10")
    case True
    then show ?thesis
      by (subst showNat.simps) (simp add: decimalValue_def digit_value)
  next
    case False
    with 1 have "decimalValue (showNat (n div 10)) = n div 10" by simp
    with False show ?thesis
      by (subst showNat.simps) (simp add: decimalValue_snoc digit_value)
  qed
qed

lemma showNat_not_empty: "showNat n \<noteq> []"
  by (subst showNat.simps) simp

lemma dropWhile_all_iff: "(\<forall>x \<in> set (dropWhile P xs). P x) \<longleftrightarrow> dropWhile P xs = []"
proof
  assume a: "\<forall>x \<in> set (dropWhile P xs). P x"
  show "dropWhile P xs = []"
  proof (cases "dropWhile P xs")
    case Nil
    then show ?thesis .
  next
    case (Cons y ys)
    then have "\<not> P y" using hd_dropWhile [of P xs] by simp
    moreover from a Cons have "P y" by simp
    ultimately show ?thesis by simp
  qed
qed (auto dest: set_dropWhileD)

lemma trim_Nil_iff: "trim s = [] \<longleftrightarrow> (\<forall>c \<in> set s. isWhiteSpace c)"
  by (simp add: trim_def dropWhile_all_iff)

lemma length_splitLines_replicate:
  "length (splitLines (replicate n (CHR 0x0A))) = Suc n"
  by (induction n) simp_all

lemma trim_replicate_newline: "trim (replicate n (CHR 0x0A)) = []"
  by (simp add: trim_Nil_iff isWhiteSpace_def)

subsection \<open>Evaluating a run\<close>

lemma createIssue_unfold:
  "createIssue rules rid detail fname ln =
     \<lparr>ruleId = rid,
      message = (case detail of
                   None \<Rightarrow> ruleMessage (rules rid)
                 | Some d \<Rightarrow> if d \<noteq> [] then renderMessage (ruleMessage (rules rid)) d
                             else ruleMessage (rules rid)),
      severity = ruleSeverity (rules rid), issueFile = fname, issueLine = ln\<rparr>"
  by (simp add: createIssue_def Let_def)

lemma addIssue_unfold:
  "addIssue rules rid detail acc ign fname ln =
     (if ruleIdText rid \<in> set ign then acc
      else if ruleSeverity (rules rid) = SevError
        then (fst acc @ [createIssue rules rid detail fname ln], snd acc)
        else (fst acc, snd acc @ [createIssue rules rid detail fname ln]))"
  by (simp add: addIssue_def Let_def)

lemmas sample_defs =
  sampleOptions_def sampleHost_def sampleRules_def plainContent_def
  goodContent_def goodHeader_def

lemmas parse_defs =
  parseAgentFile_def extractFrontmatter_def openDelimiter_def closeDelimiter_def
  afterClose_def startsWith_def isAgentFrontmatter_def MAX_FILE_SIZE_KB_def

lemmas issue_defs =
  createIssue_unfold addIssue_unfold pushIssue_def renderMessage_def replace_def startsWith_def
  KNOWN_FIELDS_def

lemmas run_defs =
  validateName_def validateArgumentHint_def validateAgents_def validateBooleanField_def
  validateMcpServers_def validateHandoff_def validateInfer_def validateUnknownFields_def
  validateBody_def validateFileReferences_def KNOWN_FIELDS_def VALID_TARGETS_def
  DESCRIPTION_MIN_QUALITY_def BODY_MAX_LINES_def trim_def isWhiteSpace_def endsWith_def

lemma good_parse:
  "parseAgentFile sampleHost ''good.agent.md'' =
     ParseSuccess (JObj [(''description'',
                             JStr ''Plans a change and hands it over to the implementer!''),
                           (''infer'', JBool True)]) ''Body''"
  by (simp add: parse_defs sample_defs)

lemma plain_parse:
  "parseAgentFile sampleHost ''plain.agent.md'' =
     ParseFailure (ParseError
       ''Agent file must contain YAML frontmatter (content between --- markers)''
       (Some FrontmatterRequired))"
  by (simp add: parse_defs sample_defs)

lemma big_parse:
  "parseAgentFile sampleHost ''big.agent.md'' =
     ParseFailure (ParseError ''File too large (586KB). Maximum: 512KB'' None)"
  by (simp add: parse_defs sample_defs showNat.simps)

subsection \<open>What one call of a validator adds\<close>

lemma ruleIds_addIssue_empty:
  "ruleIds (addIssue rules rid d ([], []) ign f l) = (if ruleIdText rid \<in> set ign then [] else [rid])"
  by (simp add: addIssue_unfold ruleIds_def)

lemma addIssue_pushIssue:
  "ruleIdText rid \<notin> set ign \<Longrightarrow>
   addIssue rules rid d acc ign f l = pushIssue (createIssue rules rid d f l) acc"
  by (simp add: addIssue_def pushIssue_def Let_def)

lemma addIssue_if_pushIssue:
  "addIssue rules rid d acc ign f l =
     (if ruleIdText rid \<in> set ign then acc else pushIssue (createIssue rules rid d f l) acc)"
  by (simp add: addIssue_def pushIssue_def Let_def)

lemma showNat_0: "showNat 0 = ''0''"
  by (subst showNat.simps) simp

lemma showNat_1: "showNat (Suc 0) = ''1''"
  by (subst showNat.simps) simp

lemma validateHandoff_empty_object:
  "validateHandoff rules (JObj []) i acc ign fname =
     addIssue rules HandoffAgentRequired (Some (showNat i))
       (addIssue rules HandoffLabelRequired (Some (showNat i)) acc ign (Some fname) None)
       ign (Some fname) None"
  by (simp add: validateHandoff_def)

lemma validateHandoff_label_only:
  "validateHandoff rules (JObj [(''label'', JStr ''x'')]) i acc ign fname =
     addIssue rules HandoffAgentRequired (Some (showNat i)) acc ign (Some fname) None"
  by (simp add: validateHandoff_def)

subsection \<open>One file, as a whole\<close>

lemma noneIgnored_validateAgentFile:
  assumes "parseAgentFile h path = ParseSuccess data body"
      and "validateAgentFile rules h path options log = (Inr r, log')"
  shows "noneIgnored (ignoreRules options) (errors r, warnings r)"
proof -
  let ?ign = "ignoreRules options"
  let ?a8 = "validateBooleanField rules (getProp data ''disable-model-invocation'')
      DisableModelInvocationFormat
      (validateBooleanField rules (getProp data ''user-invokable'') UserInvokableFormat
        (validateModel rules (getProp data ''model'')
          (validateAgents rules (getProp data ''agents'')
            (validateTools rules (getProp data ''tools'')
              (validateArgumentHint rules (getProp data ''argument-hint'')
                (validateName rules (getProp data ''name'')
                  (validateDescription rules (getProp data ''description'') ([], []) ?ign path)
                  ?ign path) ?ign path) ?ign path) ?ign path) ?ign path) ?ign path) ?ign path"
  have a8: "noneIgnored ?ign ?a8"
    by (intro noneIgnored_steps)
  from assms obtain a9 where
    t: "validateTarget rules (getProp data ''target'') ?a8 ?ign path = Inr a9"
    by (auto simp: validateAgentFile_def Let_def split: sum.splits)
  from a8 t have a9: "noneIgnored ?ign a9" by (rule noneIgnored_validateTarget)
  let ?a14 = "validateBody rules body
      (validateUnknownFields rules data
        (validateInfer rules (getProp data ''infer'')
          (validateHandoffs rules (getProp data ''handoffs'')
            (validateMcpServers rules (getProp data ''mcp-servers'') a9 ?ign path)
            ?ign path) ?ign path) ?ign path) ?ign path"
  have a14: "noneIgnored ?ign ?a14"
    by (intro noneIgnored_steps a9)
  have a15: "noneIgnored ?ign (validateFileReferences rules h body (dirname h path) ?a14 ?ign path)"
    by (intro noneIgnored_steps a9)
  from assms t a14 a15 show ?thesis
    by (auto simp: validateAgentFile_def Let_def split: if_splits)
qed

lemma validateAgentFile_ParseFailure:
  "parseAgentFile h path = ParseFailure e \<Longrightarrow>
   fst (validateAgentFile rules h path options log) =
     Inr \<lparr>resultFile = path, valid = False,
          errors = [createIssue rules
                      (case errorRuleId e of None \<Rightarrow> FrontmatterRequired | Some r \<Rightarrow> r)
                      (Some (errorMessage e)) (Some path) None],
          warnings = []\<rparr>"
  by (simp add: validateAgentFile_def Let_def)

section \<open>The claims\<close>

text \<open>
  Claim C1, as the code has it. When the file parses, no issue of the result, error or
  warning, has a rule whose name is on the ignore list: every issue of a validator goes
  through \<open>addIssue\<close>. When parsing fails, the result is the one error made of the
  failure, whatever the ignore list holds: that issue is made by \<open>createIssue\<close> and pushed
  without a look at the list.
\<close>

theorem ignored_rules_absent_when_parsed:
  "(parseAgentFile h path = ParseSuccess data body \<longrightarrow>
      validateAgentFile rules h path options log = (Inr r, log') \<longrightarrow>
      ruleIdText rid \<in> set (ignoreRules options) \<longrightarrow>
      rid \<notin> set (map ruleId (errors r @ warnings r)))
   \<and> (parseAgentFile h path = ParseFailure e \<longrightarrow>
      fst (validateAgentFile rules h path options log) =
        Inr \<lparr>resultFile = path, valid = False,
             errors = [createIssue rules
                         (case errorRuleId e of None \<Rightarrow> FrontmatterRequired | Some r \<Rightarrow> r)
                         (Some (errorMessage e)) (Some path) None],
             warnings = []\<rparr>)"
proof (intro conjI impI)
  assume p: "parseAgentFile h path = ParseSuccess data body"
     and v: "validateAgentFile rules h path options log = (Inr r, log')"
     and i: "ruleIdText rid \<in> set (ignoreRules options)"
  from noneIgnored_validateAgentFile [OF p v] i
  show "rid \<notin> set (map ruleId (errors r @ warnings r))"
    by (auto simp: noneIgnored_def)
next
  assume "parseAgentFile h path = ParseFailure e"
  then show "fst (validateAgentFile rules h path options log) =
        Inr \<lparr>resultFile = path, valid = False,
             errors = [createIssue rules
                         (case errorRuleId e of None \<Rightarrow> FrontmatterRequired | Some r \<Rightarrow> r)
                         (Some (errorMessage e)) (Some path) None],
             warnings = []\<rparr>"
    by (rule validateAgentFile_ParseFailure)
qed

theorem ignored_rules_absent_when_parsed_witness:
  "parseAgentFile sampleHost ''good.agent.md'' =
     ParseSuccess (JObj [(''description'',
                           JStr ''Plans a change and hands it over to the implementer!''),
                         (''infer'', JBool True)]) ''Body''
   \<and> validateAgentFile sampleRules sampleHost ''good.agent.md''
         (sampleOptions [''infer-deprecated'']) []
       = (Inr \<lparr>resultFile = ''good.agent.md'', valid = True, errors = [], warnings = []\<rparr>, [])
   \<and> ruleIdText InferDeprecated \<in> set (ignoreRules (sampleOptions [''infer-deprecated'']))
   \<and> InferDeprecated \<notin> set (map ruleId ([] @ []))
   \<and> parseAgentFile sampleHost ''big.agent.md'' =
       ParseFailure (ParseError ''File too large (586KB). Maximum: 512KB'' None)
   \<and> fst (validateAgentFile sampleRules sampleHost ''big.agent.md''
            (sampleOptions [''frontmatter-required'']) [])
       = Inr \<lparr>resultFile = ''big.agent.md'', valid = False,
               errors = [\<lparr>ruleId = FrontmatterRequired,
                           message = ''frontmatter-required: File too large (586KB). Maximum: 512KB'',
                           severity = SevError, issueFile = Some ''big.agent.md'',
                           issueLine = None\<rparr>],
               warnings = []\<rparr>"
proof -
  have run: "validateAgentFile sampleRules sampleHost ''good.agent.md''
         (sampleOptions [''infer-deprecated'']) []
       = (Inr \<lparr>resultFile = ''good.agent.md'', valid = True, errors = [], warnings = []\<rparr>, [])"
    by (simp add: validateAgentFile_def good_parse sampleOptions_def run_defs issue_defs
          sampleRules_def)
  have ign: "ruleIdText InferDeprecated \<in> set (ignoreRules (sampleOptions [''infer-deprecated'']))"
    by (simp add: sampleOptions_def)
  note inst = ignored_rules_absent_when_parsed
    [of sampleHost "''good.agent.md''" _ _ sampleRules "sampleOptions [''infer-deprecated'']"]
  from inst [THEN conjunct1, rule_format, OF good_parse run ign]
  have a: "InferDeprecated \<notin> set (map ruleId ([] @ []))" by simp
  from ignored_rules_absent_when_parsed
    [of sampleHost "''big.agent.md''", THEN conjunct2, rule_format, OF big_parse,
     of sampleRules "sampleOptions [''frontmatter-required'']" "[]"]
  have b: "fst (validateAgentFile sampleRules sampleHost ''big.agent.md''
            (sampleOptions [''frontmatter-required'']) [])
       = Inr \<lparr>resultFile = ''big.agent.md'', valid = False,
               errors = [\<lparr>ruleId = FrontmatterRequired,
                           message = ''frontmatter-required: File too large (586KB). Maximum: 512KB'',
                           severity = SevError, issueFile = Some ''big.agent.md'',
                           issueLine = None\<rparr>],
               warnings = []\<rparr>"
    by (simp add: issue_defs sampleRules_def)
  from good_parse run ign a big_parse b show ?thesis by simp
qed

text \<open>
  Claim C1 as the spec states it fails: with \<^verbatim>\<open>frontmatter-required\<close> on the ignore list, a
  file without a header still gets the error \<^verbatim>\<open>frontmatter-required\<close>.
\<close>

theorem ignored_frontmatter_required_still_reported:
  "ruleIdText FrontmatterRequired \<in> set (ignoreRules (sampleOptions [''frontmatter-required'']))
   \<and> fst (validateAgentFile sampleRules sampleHost ''plain.agent.md''
            (sampleOptions [''frontmatter-required'']) [])
       = Inr \<lparr>resultFile = ''plain.agent.md'', valid = False,
               errors = [\<lparr>ruleId = FrontmatterRequired,
                           message = ''frontmatter-required: Agent file must contain YAML frontmatter (content between --- markers)'',
                           severity = SevError, issueFile = Some ''plain.agent.md'',
                           issueLine = None\<rparr>],
               warnings = []\<rparr>"
  by (simp add: validateAgentFile_ParseFailure [OF plain_parse] sampleOptions_def issue_defs
        sampleRules_def)

text \<open>
  Claim C2. A file of more than 512 KiB is rejected before it is read: \<open>parseAgentFile\<close>
  returns a failure whose rule is null (\<open>None\<close>), whatever \<^verbatim>\<open>readFileSync\<close> and the decoder
  would do, and \<open>validateAgentFile\<close> returns that failure as the one error of the file, with
  no warning; no validator runs. The issue it makes of the failure is filed under the
  fallback \<^verbatim>\<open>frontmatter-required\<close>, as for every failure whose rule is null.
\<close>

theorem oversize_rejected_before_parsing:
  assumes "statSize h path = Inr sz" and "MAX_FILE_SIZE_KB * 1024 < sz"
  shows "parseAgentFile h path =
           ParseFailure (ParseError
             (''File too large ('' @ showNat ((sz + 512) div 1024) @ ''KB). Maximum: ''
                @ showNat MAX_FILE_SIZE_KB @ ''KB'') None)
       \<and> parseAgentFile (h\<lparr>readFileSync := rd, load := ld\<rparr>) path = parseAgentFile h path
       \<and> fst (validateAgentFile rules h path options log) =
           Inr \<lparr>resultFile = path, valid = False,
                errors = [createIssue rules FrontmatterRequired
                            (Some (''File too large ('' @ showNat ((sz + 512) div 1024)
                                     @ ''KB). Maximum: '' @ showNat MAX_FILE_SIZE_KB @ ''KB''))
                            (Some path) None],
                warnings = []\<rparr>"
proof -
  from assms have p: "parseAgentFile h path =
           ParseFailure (ParseError
             (''File too large ('' @ showNat ((sz + 512) div 1024) @ ''KB). Maximum: ''
                @ showNat MAX_FILE_SIZE_KB @ ''KB'') None)"
    by (simp add: parseAgentFile_def)
  from assms have q: "parseAgentFile (h\<lparr>readFileSync := rd, load := ld\<rparr>) path
                        = parseAgentFile h path"
    by (simp add: parseAgentFile_def)
  from validateAgentFile_ParseFailure [OF p] p q show ?thesis by simp
qed

theorem oversize_rejected_before_parsing_witness:
  "statSize sampleHost ''big.agent.md'' = Inr 600000
   \<and> MAX_FILE_SIZE_KB * 1024 < 600000
   \<and> parseAgentFile sampleHost ''big.agent.md'' =
       ParseFailure (ParseError ''File too large (586KB). Maximum: 512KB'' None)
   \<and> fst (validateAgentFile sampleRules sampleHost ''big.agent.md'' (sampleOptions []) [])
       = Inr \<lparr>resultFile = ''big.agent.md'', valid = False,
               errors = [\<lparr>ruleId = FrontmatterRequired,
                           message = ''frontmatter-required: File too large (586KB). Maximum: 512KB'',
                           severity = SevError, issueFile = Some ''big.agent.md'',
                           issueLine = None\<rparr>],
               warnings = []\<rparr>"
proof -
  have s: "statSize sampleHost ''big.agent.md'' = Inr 600000"
    by (simp add: sampleHost_def)
  have m: "MAX_FILE_SIZE_KB * 1024 < 600000"
    by (simp add: MAX_FILE_SIZE_KB_def)
  from oversize_rejected_before_parsing [OF s m, of "\<lambda>p. Inl []" "\<lambda>t. Inl []" sampleRules
         "sampleOptions []" "[]"] s m
  show ?thesis
    by (simp add: MAX_FILE_SIZE_KB_def showNat.simps issue_defs sampleRules_def)
qed

text \<open>
  Claim C3, as the code has it. For an element of \<^verbatim>\<open>handoffs\<close> that is null, a boolean, a
  number or a string, \<open>validateHandoff\<close> hands exactly one issue to \<open>addIssue\<close>, the
  \<^verbatim>\<open>handoffs-format\<close> issue "Item at index i is not an object", and checks nothing else of the
  element: the lists gain that one issue, or nothing when the rule is on the ignore list.
\<close>

theorem scalar_handoff_single_issue:
  assumes "handoff = JNull \<or> (\<exists>b. handoff = JBool b) \<or> (\<exists>n. handoff = JNum n)
             \<or> (\<exists>s. handoff = JStr s)"
  shows "validateHandoff rules handoff index acc ign fname =
           (if ruleIdText HandoffsFormat \<in> set ign then acc
            else pushIssue
                   (createIssue rules HandoffsFormat
                      (Some (''Item at index '' @ showNat index @ '' is not an object''))
                      (Some fname) None)
                   acc)"
  using assms by (elim disjE exE) (simp_all add: validateHandoff_def addIssue_if_pushIssue)

theorem scalar_handoff_single_issue_witness:
  "(JNum ''5'' = JNull \<or> (\<exists>b. JNum ''5'' = JBool b) \<or> (\<exists>n. JNum ''5'' = JNum n)
      \<or> (\<exists>s. JNum ''5'' = JStr s))
   \<and> validateHandoff sampleRules (JNum ''5'') 3 ([], []) [] ''a.agent.md'' =
       ([\<lparr>ruleId = HandoffsFormat,
           message = ''handoffs-format: Item at index 3 is not an object'',
           severity = SevError, issueFile = Some ''a.agent.md'', issueLine = None\<rparr>], [])"
proof -
  have h: "JNum ''5'' = JNull \<or> (\<exists>b. JNum ''5'' = JBool b) \<or> (\<exists>n. JNum ''5'' = JNum n)
      \<or> (\<exists>s. JNum ''5'' = JStr s)"
    by simp
  from scalar_handoff_single_issue [OF h, of sampleRules 3 "([], [])" "[]" "''a.agent.md''"] h
  show ?thesis
    by (simp add: issue_defs sampleRules_def showNat.simps)
qed

text \<open>
  Claim C3 as the spec states it fails for an array: \<^verbatim>\<open>typeof\<close> of an array is \<^verbatim>\<open>"object"\<close>, so an
  array element passes the first test and gets the label and agent issues, not
  \<^verbatim>\<open>handoffs-format\<close>.
\<close>

theorem array_handoff_not_rejected:
  "ruleIds (validateHandoff sampleRules (JArr [JStr ''planner'']) 0 ([], []) [] ''a.agent.md'')
     = [HandoffLabelRequired, HandoffAgentRequired]"
  by (simp add: validateHandoff_def issue_defs sampleRules_def ruleIds_def showNat.simps)



text \<open>
  Claim C5. When the description is absent, null, or a string that is empty or only white
  space, \<open>validateDescription\<close> yields one \<^verbatim>\<open>description-format\<close> issue. For a string that is
  not blank and shorter than 50, it yields one \<^verbatim>\<open>description-quality\<close> issue whose detail,
  substituted into the rule's message, is the decimal text of the string's length. Each
  issue goes through \<open>addIssue\<close>, so it is dropped when its rule is on the ignore list.
\<close>

theorem description_format_and_quality:
  "((description = None \<or> description = Some JNull
       \<or> (\<exists>t. description = Some (JStr t) \<and> trim t = [])) \<longrightarrow>
      validateDescription rules description acc ign fname =
        (if ruleIdText DescriptionFormat \<in> set ign then acc
         else pushIssue (createIssue rules DescriptionFormat None (Some fname) None) acc))
   \<and> (trim s \<noteq> [] \<and> length s < 50 \<longrightarrow>
        validateDescription rules (Some (JStr s)) acc ign fname =
          (if ruleIdText DescriptionQuality \<in> set ign then acc
           else pushIssue
                  (createIssue rules DescriptionQuality (Some (showNat (length s)))
                     (Some fname) None)
                  acc)
        \<and> message (createIssue rules DescriptionQuality (Some (showNat (length s)))
                      (Some fname) None)
            = renderMessage (ruleMessage (rules DescriptionQuality)) (showNat (length s))
        \<and> decimalValue (showNat (length s)) = length s)"
  by (auto simp: addIssue_if_pushIssue createIssue_unfold showNat_not_empty
        decimalValue_showNat DESCRIPTION_MIN_QUALITY_def)

theorem description_format_and_quality_witness:
  "(Some (JStr [CHR 0x20, CHR 0x09]) = None \<or> Some (JStr [CHR 0x20, CHR 0x09]) = Some JNull
      \<or> (\<exists>t. Some (JStr [CHR 0x20, CHR 0x09]) = Some (JStr t) \<and> trim t = []))
   \<and> validateDescription sampleRules (Some (JStr [CHR 0x20, CHR 0x09])) ([], []) [] ''a.agent.md'' =
       ([\<lparr>ruleId = DescriptionFormat, message = ''description-format: {detail}'',
           severity = SevError, issueFile = Some ''a.agent.md'', issueLine = None\<rparr>], [])
   \<and> trim ''short one'' \<noteq> [] \<and> length ''short one'' < (50 :: nat)
   \<and> validateDescription sampleRules (Some (JStr ''short one'')) ([], []) [] ''a.agent.md'' =
       ([], [\<lparr>ruleId = DescriptionQuality, message = ''Description is short (9 characters)'',
               severity = SevWarning, issueFile = Some ''a.agent.md'', issueLine = None\<rparr>])
   \<and> decimalValue ''9'' = 9"
proof -
  have b: "trim [CHR 0x20, CHR 0x09] = []"
    by (simp add: trim_def isWhiteSpace_def)
  then have h1: "Some (JStr [CHR 0x20, CHR 0x09]) = None \<or> Some (JStr [CHR 0x20, CHR 0x09]) = Some JNull
      \<or> (\<exists>t. Some (JStr [CHR 0x20, CHR 0x09]) = Some (JStr t) \<and> trim t = [])"
    by simp
  have h2: "trim ''short one'' \<noteq> [] \<and> length ''short one'' < (50 :: nat)"
    by (simp add: trim_def isWhiteSpace_def)
  note inst = description_format_and_quality
    [of "Some (JStr [CHR 0x20, CHR 0x09])" sampleRules "([], [])" "[]" "''a.agent.md''" "''short one''"]
  from inst [THEN conjunct1, rule_format, OF h1]
  have a1: "validateDescription sampleRules (Some (JStr [CHR 0x20, CHR 0x09])) ([], []) [] ''a.agent.md'' =
       ([\<lparr>ruleId = DescriptionFormat, message = ''description-format: {detail}'',
           severity = SevError, issueFile = Some ''a.agent.md'', issueLine = None\<rparr>], [])"
    by (simp add: issue_defs sampleRules_def)
  from inst [THEN conjunct2, rule_format, OF h2]
  have a2: "validateDescription sampleRules (Some (JStr ''short one'')) ([], []) [] ''a.agent.md'' =
       ([], [\<lparr>ruleId = DescriptionQuality, message = ''Description is short (9 characters)'',
               severity = SevWarning, issueFile = Some ''a.agent.md'', issueLine = None\<rparr>])"
    and a3: "decimalValue ''9'' = 9"
    by (simp_all add: issue_defs sampleRules_def showNat.simps)
  from h1 h2 a1 a2 a3 show ?thesis by simp
qed

text \<open>
  Claim C6. For \<^verbatim>\<open>handoffs: [{}, {label: "x"}]\<close> the validator hands three issues to
  \<open>addIssue\<close>, in this order: \<^verbatim>\<open>handoff-label-required\<close> and \<^verbatim>\<open>handoff-agent-required\<close> with
  detail 0, then \<^verbatim>\<open>handoff-agent-required\<close> with detail 1, and no other. With neither rule
  on the ignore list, element 0 alone gives the first two, element 1 alone gives the third,
  and the whole array gives the three.
\<close>

theorem handoffs_example:
  "validateHandoffs rules (Some (JArr [JObj [], JObj [(''label'', JStr ''x'')]])) acc ign fname =
     addIssue rules HandoffAgentRequired (Some ''1'')
       (addIssue rules HandoffAgentRequired (Some ''0'')
          (addIssue rules HandoffLabelRequired (Some ''0'') acc ign (Some fname) None)
          ign (Some fname) None)
       ign (Some fname) None
   \<and> (ruleIdText HandoffLabelRequired \<notin> set ign \<and> ruleIdText HandoffAgentRequired \<notin> set ign \<longrightarrow>
        validateHandoff rules (JObj []) 0 acc ign fname =
          pushIssue (createIssue rules HandoffAgentRequired (Some ''0'') (Some fname) None)
            (pushIssue (createIssue rules HandoffLabelRequired (Some ''0'') (Some fname) None) acc)
        \<and> validateHandoff rules (JObj [(''label'', JStr ''x'')]) 1 acc ign fname =
            pushIssue (createIssue rules HandoffAgentRequired (Some ''1'') (Some fname) None) acc
        \<and> validateHandoffs rules (Some (JArr [JObj [], JObj [(''label'', JStr ''x'')]])) acc ign fname =
            pushIssue (createIssue rules HandoffAgentRequired (Some ''1'') (Some fname) None)
              (pushIssue (createIssue rules HandoffAgentRequired (Some ''0'') (Some fname) None)
                 (pushIssue (createIssue rules HandoffLabelRequired (Some ''0'') (Some fname) None)
                    acc)))"
  by (simp add: validateHandoff_empty_object validateHandoff_label_only showNat_0 showNat_1
        addIssue_pushIssue)

theorem handoffs_example_witness:
  "ruleIdText HandoffLabelRequired \<notin> set [] \<and> ruleIdText HandoffAgentRequired \<notin> set []
   \<and> validateHandoffs sampleRules (Some (JArr [JObj [], JObj [(''label'', JStr ''x'')]])) ([], []) []
        ''a.agent.md'' =
       ([\<lparr>ruleId = HandoffLabelRequired, message = ''Handoff 0 needs a label'',
           severity = SevError, issueFile = Some ''a.agent.md'', issueLine = None\<rparr>,
         \<lparr>ruleId = HandoffAgentRequired, message = ''Handoff 0 needs an agent'',
           severity = SevError, issueFile = Some ''a.agent.md'', issueLine = None\<rparr>,
         \<lparr>ruleId = HandoffAgentRequired, message = ''Handoff 1 needs an agent'',
           severity = SevError, issueFile = Some ''a.agent.md'', issueLine = None\<rparr>], [])"
proof -
  have h: "ruleIdText HandoffLabelRequired \<notin> set [] \<and> ruleIdText HandoffAgentRequired \<notin> set []"
    by simp
  note c = handoffs_example [of sampleRules "([], [])" "[]" "''a.agent.md''", THEN conjunct2,
             rule_format, OF h, THEN conjunct2, THEN conjunct2]
  have r: "pushIssue (createIssue sampleRules HandoffAgentRequired (Some ''1'') (Some ''a.agent.md'') None)
             (pushIssue (createIssue sampleRules HandoffAgentRequired (Some ''0'') (Some ''a.agent.md'') None)
                (pushIssue (createIssue sampleRules HandoffLabelRequired (Some ''0'') (Some ''a.agent.md'') None)
                   ([], []))) =
       ([\<lparr>ruleId = HandoffLabelRequired, message = ''Handoff 0 needs a label'',
           severity = SevError, issueFile = Some ''a.agent.md'', issueLine = None\<rparr>,
         \<lparr>ruleId = HandoffAgentRequired, message = ''Handoff 0 needs an agent'',
           severity = SevError, issueFile = Some ''a.agent.md'', issueLine = None\<rparr>,
         \<lparr>ruleId = HandoffAgentRequired, message = ''Handoff 1 needs an agent'',
           severity = SevError, issueFile = Some ''a.agent.md'', issueLine = None\<rparr>], [])"
    by (simp add: issue_defs sampleRules_def)
  from h show ?thesis unfolding c r by simp
qed

text \<open>
  Claim C7. For a document that is a mapping: when the key \<^verbatim>\<open>infer\<close> is present, whatever
  its value, \<open>validateInfer\<close> yields exactly one \<^verbatim>\<open>infer-deprecated\<close> issue (dropped when the
  rule is on the ignore list), and that issue goes to the warnings when the rule table
  gives the rule the severity warning; when the key is absent the lists are unchanged.
\<close>

theorem infer_presence_warns:
  "(''infer'' \<in> fst ` set props \<longrightarrow>
      validateInfer rules (getProp (JObj props) ''infer'') acc ign fname =
        (if ruleIdText InferDeprecated \<in> set ign then acc
         else pushIssue (createIssue rules InferDeprecated None (Some fname) None) acc))
   \<and> (''infer'' \<in> fst ` set props \<longrightarrow> ruleIdText InferDeprecated \<notin> set ign \<longrightarrow>
        ruleSeverity (rules InferDeprecated) = SevWarning \<longrightarrow>
        validateInfer rules (getProp (JObj props) ''infer'') (es, ws) ign fname =
          (es, ws @ [createIssue rules InferDeprecated None (Some fname) None]))
   \<and> (''infer'' \<notin> fst ` set props \<longrightarrow>
        validateInfer rules (getProp (JObj props) ''infer'') acc ign fname = acc)"
proof -
  have "''infer'' \<in> fst ` set props \<Longrightarrow> map_of props ''infer'' \<noteq> None"
    by (simp add: map_of_eq_None_iff)
  moreover have "''infer'' \<notin> fst ` set props \<Longrightarrow> map_of props ''infer'' = None"
    by (simp add: map_of_eq_None_iff)
  ultimately show ?thesis
    by (auto simp: validateInfer_def addIssue_if_pushIssue pushIssue_def)
qed

theorem infer_presence_warns_witness:
  "''infer'' \<in> fst ` set [(''infer'', JBool False)]
   \<and> ruleIdText InferDeprecated \<notin> set []
   \<and> ruleSeverity (sampleRules InferDeprecated) = SevWarning
   \<and> validateInfer sampleRules (getProp (JObj [(''infer'', JBool False)]) ''infer'') ([], []) []
        ''a.agent.md'' =
       ([], [\<lparr>ruleId = InferDeprecated, message = ''infer-deprecated: {detail}'',
               severity = SevWarning, issueFile = Some ''a.agent.md'', issueLine = None\<rparr>])
   \<and> ''infer'' \<notin> fst ` set [(''name'', JStr ''planner'')]
   \<and> validateInfer sampleRules (getProp (JObj [(''name'', JStr ''planner'')]) ''infer'') ([], []) []
        ''a.agent.md'' = ([], [])"
proof -
  have h1: "''infer'' \<in> fst ` set [(''infer'', JBool False)]" by simp
  have h2: "ruleIdText InferDeprecated \<notin> set []" by simp
  have h3: "ruleSeverity (sampleRules InferDeprecated) = SevWarning"
    by (simp add: sampleRules_def)
  have h4: "''infer'' \<notin> fst ` set [(''name'', JStr ''planner'')]" by simp
  from infer_presence_warns [of "[(''infer'', JBool False)]" sampleRules _ "[]" "''a.agent.md''"
         "[]" "[]", THEN conjunct2, THEN conjunct1, rule_format, OF h1 h2 h3]
  have a: "validateInfer sampleRules (getProp (JObj [(''infer'', JBool False)]) ''infer'') ([], []) []
        ''a.agent.md'' =
       ([], [\<lparr>ruleId = InferDeprecated, message = ''infer-deprecated: {detail}'',
               severity = SevWarning, issueFile = Some ''a.agent.md'', issueLine = None\<rparr>])"
    by (simp add: issue_defs sampleRules_def)
  from infer_presence_warns [of "[(''name'', JStr ''planner'')]" sampleRules "([], [])" "[]"
         "''a.agent.md''", THEN conjunct2, THEN conjunct2, rule_format, OF h4]
  have b: "validateInfer sampleRules (getProp (JObj [(''name'', JStr ''planner'')]) ''infer'') ([], []) []
        ''a.agent.md'' = ([], [])" .
  from h1 h2 h3 h4 a b show ?thesis by simp
qed

text \<open>
  Claim C8. In every result that validating a file gives, the flag \<open>valid\<close> is true exactly
  when the list of errors is empty; the warnings play no part. The closed example is a
  file with a warning and no error, which is valid.
\<close>

theorem valid_iff_no_errors:
  assumes "validateAgentFile rules h path options log = (Inr r, log')"
  shows "valid r \<longleftrightarrow> errors r = []"
  using assms
  by (auto simp: validateAgentFile_def Let_def split: ParseResult.splits sum.splits if_splits)

theorem valid_iff_no_errors_witness:
  "validateAgentFile sampleRules sampleHost ''good.agent.md'' (sampleOptions []) []
     = (Inr goodResult, [])
   \<and> (valid goodResult \<longleftrightarrow> errors goodResult = [])
   \<and> valid goodResult \<and> warnings goodResult \<noteq> []"
proof -
  have run: "validateAgentFile sampleRules sampleHost ''good.agent.md'' (sampleOptions []) []
     = (Inr goodResult, [])"
    by (simp add: validateAgentFile_def good_parse sampleOptions_def run_defs issue_defs
          sampleRules_def goodResult_def)
  from valid_iff_no_errors [OF run] run show ?thesis
    by (simp add: goodResult_def)
qed

text \<open>
  Claim C10. \<open>validateBody\<close> yields \<^verbatim>\<open>body-empty\<close> for a body that is empty or only white
  space and nothing else for it, however many lines it has; for any other body it yields
  \<^verbatim>\<open>body-too-long\<close> when the body has more than 1000 lines and nothing otherwise. So it
  yields at most one issue, never both rules, and never \<^verbatim>\<open>body-empty\<close> for a body that is
  not blank.
\<close>

theorem body_empty_or_too_long:
  "validateBody rules body acc ign fname =
     (if trim body = [] then
        (if ruleIdText BodyEmpty \<in> set ign then acc
         else pushIssue (createIssue rules BodyEmpty None (Some fname) None) acc)
      else if BODY_MAX_LINES < length (splitLines body) then
        (if ruleIdText BodyTooLong \<in> set ign then acc
         else pushIssue
                (createIssue rules BodyTooLong (Some (showNat (length (splitLines body))))
                   (Some fname) None)
                acc)
      else acc)
   \<and> length (ruleIds (validateBody rules body ([], []) ign fname)) \<le> 1
   \<and> \<not> (BodyEmpty \<in> set (ruleIds (validateBody rules body ([], []) ign fname))
         \<and> BodyTooLong \<in> set (ruleIds (validateBody rules body ([], []) ign fname)))
   \<and> (trim body = [] \<longrightarrow>
        ruleIds (validateBody rules body ([], []) ign fname) =
          (if ruleIdText BodyEmpty \<in> set ign then [] else [BodyEmpty]))
   \<and> (trim body \<noteq> [] \<longrightarrow>
        BodyEmpty \<notin> set (ruleIds (validateBody rules body ([], []) ign fname)))"
proof -
  have t: "(body = [] \<or> length (trim body) = 0) \<longleftrightarrow> trim body = []"
    by (auto simp: trim_def)
  have e: "validateBody rules body a ign fname =
     (if trim body = [] then addIssue rules BodyEmpty None a ign (Some fname) None
      else if BODY_MAX_LINES < length (splitLines body) then
        addIssue rules BodyTooLong (Some (showNat (length (splitLines body)))) a ign
          (Some fname) None
      else a)" for a
    unfolding validateBody_def t by (simp add: Let_def)
  have i: "ruleIds (validateBody rules body ([], []) ign fname) =
     (if trim body = [] then (if ruleIdText BodyEmpty \<in> set ign then [] else [BodyEmpty])
      else if BODY_MAX_LINES < length (splitLines body) then
        (if ruleIdText BodyTooLong \<in> set ign then [] else [BodyTooLong])
      else [])"
    by (simp add: e ruleIds_addIssue_empty) (simp add: ruleIds_def)
  show ?thesis
    by (simp add: i) (simp add: e addIssue_if_pushIssue)
qed

theorem body_empty_or_too_long_witness:
  "trim (replicate 1500 (CHR 0x0A)) = []
   \<and> BODY_MAX_LINES < length (splitLines (replicate 1500 (CHR 0x0A)))
   \<and> ruleIds (validateBody sampleRules (replicate 1500 (CHR 0x0A)) ([], []) [] ''a.agent.md'')
       = [BodyEmpty]
   \<and> trim ''Body'' \<noteq> []
   \<and> BodyEmpty \<notin> set (ruleIds (validateBody sampleRules ''Body'' ([], []) [] ''a.agent.md''))"
proof -
  have h1: "trim (replicate 1500 (CHR 0x0A)) = []"
    by (rule trim_replicate_newline)
  have h2: "BODY_MAX_LINES < length (splitLines (replicate 1500 (CHR 0x0A)))"
    by (simp add: length_splitLines_replicate BODY_MAX_LINES_def)
  have h3: "trim ''Body'' \<noteq> []"
    by (simp add: trim_def isWhiteSpace_def)
  note a = body_empty_or_too_long
    [of sampleRules "replicate 1500 (CHR 0x0A)" "([], [])" "[]" "''a.agent.md''",
     THEN conjunct2, THEN conjunct2, THEN conjunct2, THEN conjunct1, rule_format, OF h1]
  note b = body_empty_or_too_long
    [of sampleRules "''Body''" "([], [])" "[]" "''a.agent.md''",
     THEN conjunct2, THEN conjunct2, THEN conjunct2, THEN conjunct2, rule_format, OF h3]
  from h1 h2 h3 a b show ?thesis by simp
qed

end
